theory Spec2Isabelle
  imports
    Main
    "HOL-Library.Char_ord"
    "HOL-Library.List_Lexorder"
    "HOL-Library.Product_Lexorder"
    "HOL-Library.Option_ord"
    "HOL-Library.Multiset"
begin

section \<open>Values and exceptions\<close>

text \<open>
  The three programs (birthday, car, library) keep validated records in a list, sort the
  list on every insertion and load, and store it in a tagged text file.

  A Python \<open>str\<close> is modelled as a \<^typ>\<open>string\<close> whose characters are read as code
  points 0..255; the order of \<^typ>\<open>char\<close> and the lexicographic order of lists are then
  Python's order of strings. Texts with code points above 255 are outside the model; the
  built-in operations below are those of Python on the texts inside it. A field that the
  source annotates \<open>str\<close> but that can hold \<open>None\<close> (the text of an empty tag, read by
  \<open>load\<close>) has type \<open>pystr\<close>, with \<^term>\<open>None\<close> for Python's \<open>None\<close>. Python's
  \<open>int\<close> is \<^typ>\<open>int\<close>.
\<close>

type_synonym pystr = "string option"

text \<open>
  The message of an exception is kept as a constructor with the values the source formats
  into the text, not as the formatted (Cyrillic) text itself.
\<close>

datatype date_msg =
    YearOutOfRange int            \<comment> \<open>"year must be in 1900-{current\_year}"\<close>
  | DayOutOfRange int int         \<comment> \<open>"day must be in 1-{days\_in\_month} for month {month}"\<close>

datatype speed_msg =
    MaxSpeedNotPositive           \<comment> \<open>"maximal speed must be positive"\<close>
  | CurrentSpeedNegative          \<comment> \<open>"current speed cannot be negative"\<close>

datatype input_msg =
    YearOutOfBounds int           \<comment> \<open>"year of publication must be in 0-{current\_year}"\<close>
  | PagesNotPositive              \<comment> \<open>"number of pages must be positive"\<close>

datatype io_msg =
    ParseFailure string           \<comment> \<open>"XML parse error in file {filename}: {e}"\<close>
  | FileMissing                   \<comment> \<open>"file not found: {filename}"\<close>
  | SaveFailure string            \<comment> \<open>"error saving to file {filename}: {e}"\<close>

datatype exc =
    InvalidMonthError int
  | InvalidDateError int int int date_msg
  | InvalidSpeedError int speed_msg
  | SpeedLimitExceededError int int "pystr \<times> pystr \<times> pystr"
  | InvalidInputError int input_msg
  | DataFormatError string io_msg
  | AttributeError
  | ValueError
  | TypeError
  | OSError string

text \<open>The class of an exception, which is what an \<open>except\<close> clause of a caller matches.\<close>

datatype exc_class =
    CInvalidMonthError | CInvalidDateError | CInvalidSpeedError | CSpeedLimitExceededError
  | CInvalidInputError | CDataFormatError | CAttributeError | CValueError | CTypeError
  | COSError

fun class_of :: "exc \<Rightarrow> exc_class" where
  "class_of (InvalidMonthError m) = CInvalidMonthError"
| "class_of (InvalidDateError d m y msg) = CInvalidDateError"
| "class_of (InvalidSpeedError s msg) = CInvalidSpeedError"
| "class_of (SpeedLimitExceededError c m info) = CSpeedLimitExceededError"
| "class_of (InvalidInputError v msg) = CInvalidInputError"
| "class_of (DataFormatError f msg) = CDataFormatError"
| "class_of AttributeError = CAttributeError"
| "class_of ValueError = CValueError"
| "class_of TypeError = CTypeError"
| "class_of (OSError msg) = COSError"

section \<open>Records and their validation\<close>

subsection \<open>birthday/models.py: Person\<close>

record person =
  last_name :: pystr
  first_name :: pystr
  phone :: pystr
  day :: int
  month :: int
  year :: int

text \<open>\<open>Person._get_days_in_month\<close>, on the month and year of the record.\<close>

definition get_days_in_month :: "int \<Rightarrow> int \<Rightarrow> int" where
  "get_days_in_month m y =
     (if m = 2 then
        (if (y mod 4 = 0 \<and> y mod 100 \<noteq> 0) \<or> y mod 400 = 0 then 29 else 28)
      else if m \<in> set [4, 6, 9, 11] then 30
      else 31)"

text \<open>
  The dataclass constructor followed by \<open>__post_init__\<close>. The first argument is
  \<open>datetime.now().year\<close>, the only thing the validation reads from the clock.
\<close>

definition Person ::
  "int \<Rightarrow> pystr \<Rightarrow> pystr \<Rightarrow> pystr \<Rightarrow> int \<Rightarrow> int \<Rightarrow> int \<Rightarrow> exc + person" where
  "Person current_year ln fn ph d m y =
     (if y < 1900 \<or> y > current_year then
        Inl (InvalidDateError d m y (YearOutOfRange current_year))
      else if m < 1 \<or> m > 12 then Inl (InvalidMonthError m)
      else if d < 1 \<or> d > get_days_in_month m y then
        Inl (InvalidDateError d m y (DayOutOfRange (get_days_in_month m y) m))
      else
        Inr \<lparr>last_name = ln, first_name = fn, phone = ph, day = d, month = m, year = y\<rparr>)"

definition birthday_in_month :: "person \<Rightarrow> int \<Rightarrow> bool" where
  "birthday_in_month p m = (month p = m)"

text \<open>
  The Gregorian calendar as the specification words it, written independently of
  \<open>_get_days_in_month\<close>, for comparison with it: a year is a leap year when it is
  divisible by 4 and not by 100, or divisible by 400; the twelve months have 31, 28 or 29,
  31, 30, 31, 30, 31, 31, 30, 31, 30 and 31 days. There is no month outside 1..12.
\<close>

definition gregorian_leap_year :: "int \<Rightarrow> bool" where
  "gregorian_leap_year y = ((4 dvd y \<and> \<not> 100 dvd y) \<or> 400 dvd y)"

definition gregorian_days_in_month :: "int \<Rightarrow> int \<Rightarrow> int" where
  "gregorian_days_in_month m y =
     (if m = 1 then 31
      else if m = 2 then (if gregorian_leap_year y then 29 else 28)
      else if m = 3 then 31
      else if m = 4 then 30
      else if m = 5 then 31
      else if m = 6 then 30
      else if m = 7 then 31
      else if m = 8 then 31
      else if m = 9 then 30
      else if m = 10 then 31
      else if m = 11 then 30
      else if m = 12 then 31
      else 0)"

subsection \<open>car/models.py: Car\<close>

record car =
  brand :: pystr
  model :: pystr
  license_plate :: pystr
  max_speed :: int
  current_speed :: int

definition Car :: "pystr \<Rightarrow> pystr \<Rightarrow> pystr \<Rightarrow> int \<Rightarrow> int \<Rightarrow> exc + car" where
  "Car b mo lp ms cs =
     (if ms \<le> 0 then Inl (InvalidSpeedError ms MaxSpeedNotPositive)
      else if cs < 0 then Inl (InvalidSpeedError cs CurrentSpeedNegative)
      else if cs > ms then Inl (SpeedLimitExceededError cs ms (b, mo, lp))
      else
        Inr \<lparr>brand = b, model = mo, license_plate = lp, max_speed = ms, current_speed = cs\<rparr>)"

text \<open>The three texts \<open>speed_status\<close> can return.\<close>

datatype speed_status_text =
    EXCEEDED        \<comment> \<open>the text for "limit exceeded"\<close>
  | STOPPED         \<comment> \<open>the text for "stopped"\<close>
  | WITHIN_LIMIT    \<comment> \<open>the text for "within the limit"\<close>

definition speed_status :: "car \<Rightarrow> speed_status_text" where
  "speed_status c =
     (if current_speed c > max_speed c then EXCEEDED
      else if current_speed c = 0 then STOPPED
      else WITHIN_LIMIT)"

definition is_speeding :: "car \<Rightarrow> bool" where
  "is_speeding c = (current_speed c > max_speed c)"

subsection \<open>library/models.py: Book\<close>

record book =
  title :: pystr
  author :: pystr
  pub_year :: int
  genre :: pystr
  pages :: int

text \<open>
  The field \<open>year\<close> of \<open>Book\<close> is named \<open>pub_year\<close> here, since \<open>year\<close> is the field of
  \<open>person\<close>. The bound the source calls \<open>current_year\<close> is the literal 2024.
\<close>

definition book_current_year :: int where
  "book_current_year = 2024"

definition Book :: "pystr \<Rightarrow> pystr \<Rightarrow> int \<Rightarrow> pystr \<Rightarrow> int \<Rightarrow> exc + book" where
  "Book t a y g p =
     (if y < 0 \<or> y > book_current_year then
        Inl (InvalidInputError y (YearOutOfBounds book_current_year))
      else if p \<le> 0 then Inl (InvalidInputError p PagesNotPositive)
      else Inr \<lparr>title = t, author = a, pub_year = y, genre = g, pages = p\<rparr>)"

section \<open>Built-in operations of Python\<close>

text \<open>
  \<open>str.lower\<close> on code points below 256: the letters A-Z and the capital letters of
  Latin-1 (192..222 without the multiplication sign 215) move up by 32.
\<close>

definition lower_char :: "char \<Rightarrow> char" where
  "lower_char c =
     (let n = (of_char c :: nat)
      in if (65 \<le> n \<and> n \<le> 90) \<or> (192 \<le> n \<and> n \<le> 222 \<and> n \<noteq> 215) then char_of (n + 32)
         else c)"

definition py_lower :: "string \<Rightarrow> string" where
  "py_lower s = map lower_char s"

text \<open>
  \<open>str(n)\<close> for an integer: the decimal digits, after a minus sign for a negative
  number. (The interpreter's limit on the length of such a text, 4300 digits by default in
  recent versions, is not modelled.)
\<close>

definition digit_char :: "nat \<Rightarrow> char" where
  "digit_char d = ''0123456789'' ! (d mod 10)"

fun digits_of :: "nat \<Rightarrow> string" where
  "digits_of n = (if n < 10 then [digit_char n] else digits_of (n div 10) @ [digit_char n])"

declare digits_of.simps [simp del]

definition py_str :: "int \<Rightarrow> string" where
  "py_str i = (if i < 0 then CHR ''-'' # digits_of (nat (- i)) else digits_of (nat i))"

text \<open>
  \<open>int(s)\<close> for a text: white space around the number is dropped (tab, line feed,
  vertical tab, form feed, carriage return, space, and below 256 also NEL 133 and the
  no-break space 160); then come an optional sign and decimal digits, where single
  underscores may stand between two digits. Anything else is a ValueError, and
  \<open>int(None)\<close> is a TypeError.
\<close>

definition is_space :: "char \<Rightarrow> bool" where
  "is_space c = ((of_char c :: nat) \<in> set [9, 10, 11, 12, 13, 32, 133, 160])"

definition is_digit :: "char \<Rightarrow> bool" where
  "is_digit c = (48 \<le> (of_char c :: nat) \<and> (of_char c :: nat) \<le> 57)"

definition digit_val :: "char \<Rightarrow> nat" where
  "digit_val c = of_char c - 48"

definition strip :: "string \<Rightarrow> string" where
  "strip s = rev (dropWhile is_space (rev (dropWhile is_space s)))"

fun parse_digits :: "string \<Rightarrow> nat \<Rightarrow> nat option" where
  "parse_digits [] acc = Some acc"
| "parse_digits [c] acc = (if is_digit c then Some (10 * acc + digit_val c) else None)"
| "parse_digits (c # d # cs) acc =
     (if is_digit c then parse_digits (d # cs) (10 * acc + digit_val c)
      else if c = CHR ''_'' \<and> is_digit d then parse_digits (d # cs) acc
      else None)"

definition parse_nat :: "string \<Rightarrow> nat option" where
  "parse_nat s = (case s of [] \<Rightarrow> None | c # cs \<Rightarrow> if is_digit c then parse_digits s 0 else None)"

definition parse_int :: "string \<Rightarrow> int option" where
  "parse_int s =
     (case strip s of
        [] \<Rightarrow> None
      | c # cs \<Rightarrow>
          if c = CHR ''-'' then map_option (\<lambda>n. - int n) (parse_nat cs)
          else if c = CHR ''+'' then map_option int (parse_nat cs)
          else map_option int (parse_nat (c # cs)))"

definition py_int :: "pystr \<Rightarrow> exc + int" where
  "py_int t =
     (case t of
        None \<Rightarrow> Inl TypeError
      | Some s \<Rightarrow> (case parse_int s of None \<Rightarrow> Inl ValueError | Some n \<Rightarrow> Inr n))"

text \<open>Sequencing of two steps the first of which may raise.\<close>

definition and_then :: "exc + 'a \<Rightarrow> ('a \<Rightarrow> exc + 'b) \<Rightarrow> exc + 'b" where
  "and_then r f = (case r of Inl e \<Rightarrow> Inl e | Inr v \<Rightarrow> f v)"

subsection \<open>list.sort\<close>

text \<open>
  \<open>list.sort(key=k)\<close> first computes the key of every element; if the key function
  raises, the list is left as it was. It then sorts by comparing keys with \<open><\<close>, and is
  stable. A comparison of \<open>None\<close> with a string, or with \<open>None\<close>, raises TypeError. A
  sort that ends without an exception has ordered every two elements and so has met no
  such pair: it succeeds exactly when the keys at any two positions are comparable, and
  its result is then the stable sort \<^const>\<open>sort_key\<close>, where the order of
  \<^typ>\<open>pystr\<close> (\<^term>\<open>None\<close> below every string) agrees with Python's on all the
  comparable pairs. When a comparison raises, the list is left in an order that depends on
  how far the sort had got.
\<close>

definition str_comparable :: "pystr \<Rightarrow> pystr \<Rightarrow> bool" where
  "str_comparable a b = (a \<noteq> None \<and> b \<noteq> None)"

text \<open>
  Two tuples are compared at the first component where they differ; equal tuples need
  no comparison of components.
\<close>

definition tuple_comparable :: "pystr \<times> pystr \<Rightarrow> pystr \<times> pystr \<Rightarrow> bool" where
  "tuple_comparable k1 k2 =
     (if fst k1 \<noteq> fst k2 then str_comparable (fst k1) (fst k2)
      else if snd k1 \<noteq> snd k2 then str_comparable (snd k1) (snd k2)
      else True)"

text \<open>
  The outcome of a method of a collection: it returns a value, or raises; both leave a
  list behind. \<open>RaisedInSort e xs\<close> is an exception raised by a comparison inside
  \<open>list.sort\<close>: the list then holds the elements of \<open>xs\<close> in some order.
\<close>

datatype ('r, 's) outcome =
    Returned 'r 's
  | Raised exc 's
  | RaisedInSort exc 's

section \<open>The tagged file\<close>

text \<open>
  An element of \<open>xml.etree.ElementTree\<close>: its tag, its text (\<open>None\<close> for an element
  without text; the attribute \<open>.text\<close> is \<open>elem_text\<close> here) and its children.
  Attributes and tails are never read by the programs.
\<close>

datatype element = Element (tag: string) (elem_text: pystr) (children: "element list")

text \<open>
  \<open>Element.find(t)\<close> is the first child with tag \<open>t\<close>, or \<open>None\<close>;
  \<open>Element.findall(t)\<close> is the list of all children with tag \<open>t\<close>.
\<close>

definition find_elem :: "element \<Rightarrow> string \<Rightarrow> element option" where
  "find_elem e t = (case filter (\<lambda>c. tag c = t) (children e) of [] \<Rightarrow> None | c # cs \<Rightarrow> Some c)"

definition findall :: "element \<Rightarrow> string \<Rightarrow> element list" where
  "findall e t = filter (\<lambda>c. tag c = t) (children e)"

text \<open>\<open>e.find(t).text\<close>: reading \<open>.text\<close> of \<open>None\<close> raises AttributeError.\<close>

definition find_text :: "element \<Rightarrow> string \<Rightarrow> exc + pystr" where
  "find_text e t =
     (case find_elem e t of None \<Rightarrow> Inl AttributeError | Some c \<Rightarrow> Inr (elem_text c))"

text \<open>
  What \<open>ET.parse(filename)\<close> does: it raises FileNotFoundError, raises ParseError (with
  the text of the error) when the file is not well-formed, raises another error of the
  operating system, or returns the tree, of which \<open>getroot()\<close> is the root.
\<close>

datatype parsed =
    FileNotFound
  | ParseError string
  | ReadError string
  | Root element

text \<open>
  The loop of \<open>load\<close> over the entries: \<open>rd\<close> reads one entry, \<open>caught\<close> says which
  exceptions the \<open>except\<close> clause inside the loop catches. A caught exception counts the
  entry as skipped; any other exception leaves the loop and the method.
\<close>

fun load_loop ::
  "(element \<Rightarrow> exc + 'a) \<Rightarrow> (exc \<Rightarrow> bool) \<Rightarrow> element list \<Rightarrow> 'a list \<Rightarrow> nat \<Rightarrow> exc + 'a list \<times> nat"
where
  "load_loop rd caught [] loaded errors = Inr (loaded, errors)"
| "load_loop rd caught (e # es) loaded errors =
     (case rd e of
        Inr r \<Rightarrow> load_loop rd caught es (loaded @ [r]) errors
      | Inl x \<Rightarrow> if caught x then load_loop rd caught es loaded (errors + 1) else Inl x)"

text \<open>
  Writing a tree with \<open>ElementTree.write\<close> and parsing the file again. An element whose
  text is empty is written as an empty tag and read back with the text \<open>None\<close>; a
  carriage return, alone or before a line feed, is read back as a line feed; a control
  character other than tab, line feed and carriage return makes the file ill-formed
  (\<^term>\<open>None\<close>). The tags are not examined: those written by \<open>save\<close> are names.
\<close>

definition xml_char :: "char \<Rightarrow> bool" where
  "xml_char c = ((of_char c :: nat) \<in> set [9, 10, 13] \<or> 32 \<le> (of_char c :: nat))"

fun normalize_newlines :: "string \<Rightarrow> string" where
  "normalize_newlines [] = []"
| "normalize_newlines [c] = [if c = CHR 0x0D then CHR 0x0A else c]"
| "normalize_newlines (c # d # cs) =
     (if c = CHR 0x0D then
        (if d = CHR 0x0A then CHR 0x0A # normalize_newlines cs
         else CHR 0x0A # normalize_newlines (d # cs))
      else c # normalize_newlines (d # cs))"

definition reread_text :: "pystr \<Rightarrow> pystr" where
  "reread_text t =
     (case t of None \<Rightarrow> None | Some s \<Rightarrow> if s = [] then None else Some (normalize_newlines s))"

fun writable :: "element \<Rightarrow> bool" where
  "writable (Element tg tx cs) =
     ((case tx of None \<Rightarrow> True | Some s \<Rightarrow> list_all xml_char s) \<and> list_all writable cs)"

fun reread :: "element \<Rightarrow> element" where
  "reread (Element tg tx cs) = Element tg (reread_text tx) (map reread cs)"

definition write_then_parse :: "element \<Rightarrow> parsed option" where
  "write_then_parse e = (if writable e then Some (Root (reread e)) else None)"

section \<open>The collections\<close>

subsection \<open>birthday/storage.py: BirthdayBook\<close>

text \<open>
  The key of the sort, \<open>(p.last_name.lower(), p.first_name.lower())\<close>. Calling
  \<open>.lower()\<close> on \<open>None\<close> raises AttributeError: the key is then \<^term>\<open>None\<close>.
\<close>

definition person_key :: "person \<Rightarrow> (string \<times> string) option" where
  "person_key p =
     (case last_name p of
        None \<Rightarrow> None
      | Some l \<Rightarrow> (case first_name p of None \<Rightarrow> None | Some f \<Rightarrow> Some (py_lower l, py_lower f)))"

definition sort_people :: "person list \<Rightarrow> exc + person list" where
  "sort_people ps =
     (if list_all (\<lambda>p. person_key p \<noteq> None) ps then Inr (sort_key person_key ps)
      else Inl AttributeError)"

definition BirthdayBook_add ::
  "int \<Rightarrow> person list \<Rightarrow> string \<Rightarrow> string \<Rightarrow> string \<Rightarrow> int \<Rightarrow> int \<Rightarrow> int
     \<Rightarrow> (unit, person list) outcome"
where
  "BirthdayBook_add current_year people ln fn ph d m y =
     (if m < 1 \<or> m > 12 then Raised (InvalidMonthError m) people
      else
        (case Person current_year (Some ln) (Some fn) (Some ph) d m y of
           Inl e \<Rightarrow> Raised e people
         | Inr p \<Rightarrow>
             (case sort_people (people @ [p]) of
                Inl e \<Rightarrow> Raised e (people @ [p])
              | Inr sorted_people \<Rightarrow> Returned () sorted_people)))"

definition filter_by_month :: "person list \<Rightarrow> int \<Rightarrow> (person list, person list) outcome" where
  "filter_by_month people m =
     (if m < 1 \<or> m > 12 then Raised (InvalidMonthError m) people
      else Returned (sort_key day (filter (\<lambda>p. birthday_in_month p m) people)) people)"

definition leaf :: "string \<Rightarrow> pystr \<Rightarrow> element" where
  "leaf tg tx = Element tg tx []"

definition person_element :: "person \<Rightarrow> element" where
  "person_element p =
     Element ''person'' None
       [leaf ''last_name'' (last_name p),
        leaf ''first_name'' (first_name p),
        leaf ''phone'' (phone p),
        leaf ''day'' (Some (py_str (day p))),
        leaf ''month'' (Some (py_str (month p))),
        leaf ''year'' (Some (py_str (year p)))]"

text \<open>
  \<open>save\<close> builds the tree and writes it; \<open>io_error\<close> is the exception the writing
  raises, if any. The value returned in the model is the tree written to the file.
\<close>

definition BirthdayBook_save ::
  "person list \<Rightarrow> string \<Rightarrow> string option \<Rightarrow> (element, person list) outcome" where
  "BirthdayBook_save people filename io_error =
     (case io_error of
        None \<Rightarrow> Returned (Element ''birthdays'' None (map person_element people)) people
      | Some e \<Rightarrow> Raised (DataFormatError filename (SaveFailure e)) people)"

definition read_person :: "int \<Rightarrow> element \<Rightarrow> exc + person" where
  "read_person current_year e =
     and_then (find_text e ''last_name'') (\<lambda>ln.
     and_then (find_text e ''first_name'') (\<lambda>fn.
     and_then (find_text e ''phone'') (\<lambda>ph.
     and_then (and_then (find_text e ''day'') py_int) (\<lambda>d.
     and_then (and_then (find_text e ''month'') py_int) (\<lambda>m.
     and_then (and_then (find_text e ''year'') py_int) (\<lambda>y.
     Person current_year ln fn ph d m y))))))"

definition person_caught :: "exc \<Rightarrow> bool" where
  "person_caught x =
     (class_of x \<in> set [CAttributeError, CValueError, CInvalidDateError, CInvalidMonthError])"

text \<open>
  \<open>load\<close>; \<open>file\<close> is what \<open>ET.parse(filename)\<close> does. The value returned in the
  model is what the method prints and logs: the number of records loaded and the number
  of entries skipped.
\<close>

definition BirthdayBook_load ::
  "int \<Rightarrow> person list \<Rightarrow> string \<Rightarrow> parsed \<Rightarrow> (nat \<times> nat, person list) outcome" where
  "BirthdayBook_load current_year people filename file =
     (case file of
        FileNotFound \<Rightarrow> Raised (DataFormatError filename FileMissing) people
      | ParseError e \<Rightarrow> Raised (DataFormatError filename (ParseFailure e)) people
      | ReadError e \<Rightarrow> Raised (OSError e) people
      | Root root \<Rightarrow>
          (case load_loop (read_person current_year) person_caught (findall root ''person'') [] 0 of
             Inl x \<Rightarrow> Raised x people
           | Inr (loaded_people, errors) \<Rightarrow>
               (case sort_people loaded_people of
                  Inl x \<Rightarrow> Raised x loaded_people
                | Inr sorted_people \<Rightarrow> Returned (length sorted_people, errors) sorted_people)))"

subsection \<open>car/storage.py: CarRegistry\<close>

definition car_key :: "car \<Rightarrow> pystr \<times> pystr" where
  "car_key c = (brand c, model c)"

definition sort_cars :: "car list \<Rightarrow> exc + car list" where
  "sort_cars cs =
     (if sorted_wrt tuple_comparable (map car_key cs) then Inr (sort_key car_key cs)
      else Inl TypeError)"

definition CarRegistry_add ::
  "car list \<Rightarrow> string \<Rightarrow> string \<Rightarrow> string \<Rightarrow> int \<Rightarrow> int \<Rightarrow> (unit, car list) outcome" where
  "CarRegistry_add cars b mo lp ms cs =
     (case Car (Some b) (Some mo) (Some lp) ms cs of
        Inl e \<Rightarrow> Raised e cars
      | Inr c \<Rightarrow>
          (case sort_cars (cars @ [c]) of
             Inl e \<Rightarrow> RaisedInSort e (cars @ [c])
           | Inr sorted_cars \<Rightarrow> Returned () sorted_cars))"

text \<open>
  \<open>select_speeding\<close>: \<open>sort(key=..., reverse=True)\<close> keeps the elements with equal
  keys in their original order.
\<close>

definition select_speeding :: "car list \<Rightarrow> (car list, car list) outcome" where
  "select_speeding cars =
     Returned (rev (sort_key current_speed (rev (filter is_speeding cars)))) cars"

definition car_element :: "car \<Rightarrow> element" where
  "car_element c =
     Element ''car'' None
       [leaf ''brand'' (brand c),
        leaf ''model'' (model c),
        leaf ''license_plate'' (license_plate c),
        leaf ''max_speed'' (Some (py_str (max_speed c))),
        leaf ''current_speed'' (Some (py_str (current_speed c)))]"

definition CarRegistry_save ::
  "car list \<Rightarrow> string \<Rightarrow> string option \<Rightarrow> (element, car list) outcome" where
  "CarRegistry_save cars filename io_error =
     (case io_error of
        None \<Rightarrow> Returned (Element ''cars'' None (map car_element cars)) cars
      | Some e \<Rightarrow> Raised (DataFormatError filename (SaveFailure e)) cars)"

definition read_car :: "element \<Rightarrow> exc + car" where
  "read_car e =
     and_then (find_text e ''brand'') (\<lambda>b.
     and_then (find_text e ''model'') (\<lambda>mo.
     and_then (find_text e ''license_plate'') (\<lambda>lp.
     and_then (and_then (find_text e ''max_speed'') py_int) (\<lambda>ms.
     and_then (and_then (find_text e ''current_speed'') py_int) (\<lambda>cs.
     Car b mo lp ms cs)))))"

definition car_caught :: "exc \<Rightarrow> bool" where
  "car_caught x =
     (class_of x \<in> set [CAttributeError, CValueError, CInvalidSpeedError, CSpeedLimitExceededError])"

definition CarRegistry_load ::
  "car list \<Rightarrow> string \<Rightarrow> parsed \<Rightarrow> (nat \<times> nat, car list) outcome" where
  "CarRegistry_load cars filename file =
     (case file of
        FileNotFound \<Rightarrow> Raised (DataFormatError filename FileMissing) cars
      | ParseError e \<Rightarrow> Raised (DataFormatError filename (ParseFailure e)) cars
      | ReadError e \<Rightarrow> Raised (OSError e) cars
      | Root root \<Rightarrow>
          (case load_loop read_car car_caught (findall root ''car'') [] 0 of
             Inl x \<Rightarrow> Raised x cars
           | Inr (loaded_cars, errors) \<Rightarrow>
               (case sort_cars loaded_cars of
                  Inl x \<Rightarrow> RaisedInSort x loaded_cars
                | Inr sorted_cars \<Rightarrow> Returned (length sorted_cars, errors) sorted_cars)))"

subsection \<open>library/storage.py: Library\<close>

definition sort_books :: "book list \<Rightarrow> exc + book list" where
  "sort_books bs =
     (if sorted_wrt str_comparable (map title bs) then Inr (sort_key title bs)
      else Inl TypeError)"

definition Library_add ::
  "book list \<Rightarrow> string \<Rightarrow> string \<Rightarrow> int \<Rightarrow> string \<Rightarrow> int \<Rightarrow> (unit, book list) outcome" where
  "Library_add books t a y g p =
     (case Book (Some t) (Some a) y (Some g) p of
        Inl e \<Rightarrow> Raised e books
      | Inr b \<Rightarrow>
          (case sort_books (books @ [b]) of
             Inl e \<Rightarrow> RaisedInSort e (books @ [b])
           | Inr sorted_books \<Rightarrow> Returned () sorted_books))"

definition book_element :: "book \<Rightarrow> element" where
  "book_element b =
     Element ''book'' None
       [leaf ''title'' (title b),
        leaf ''author'' (author b),
        leaf ''year'' (Some (py_str (pub_year b))),
        leaf ''genre'' (genre b),
        leaf ''pages'' (Some (py_str (pages b)))]"

definition Library_save ::
  "book list \<Rightarrow> string \<Rightarrow> string option \<Rightarrow> (element, book list) outcome" where
  "Library_save books filename io_error =
     (case io_error of
        None \<Rightarrow> Returned (Element ''library'' None (map book_element books)) books
      | Some e \<Rightarrow> Raised (DataFormatError filename (SaveFailure e)) books)"

definition read_book :: "element \<Rightarrow> exc + book" where
  "read_book e =
     and_then (find_text e ''title'') (\<lambda>t.
     and_then (find_text e ''author'') (\<lambda>a.
     and_then (and_then (find_text e ''year'') py_int) (\<lambda>y.
     and_then (find_text e ''genre'') (\<lambda>g.
     and_then (and_then (find_text e ''pages'') py_int) (\<lambda>p.
     Book t a y g p)))))"

definition book_caught :: "exc \<Rightarrow> bool" where
  "book_caught x = (class_of x \<in> set [CAttributeError, CValueError])"

text \<open>
  \<open>Library.load\<close> keeps no count of the skipped entries: it prints and logs the number
  of books loaded only.
\<close>

definition Library_load :: "book list \<Rightarrow> string \<Rightarrow> parsed \<Rightarrow> (nat, book list) outcome" where
  "Library_load books filename file =
     (case file of
        FileNotFound \<Rightarrow> Raised (DataFormatError filename FileMissing) books
      | ParseError e \<Rightarrow> Raised (DataFormatError filename (ParseFailure e)) books
      | ReadError e \<Rightarrow> Raised (OSError e) books
      | Root root \<Rightarrow>
          (case load_loop read_book book_caught (findall root ''book'') [] 0 of
             Inl x \<Rightarrow> Raised x books
           | Inr (loaded_books, errors) \<Rightarrow>
               (case sort_books loaded_books of
                  Inl x \<Rightarrow> RaisedInSort x loaded_books
                | Inr sorted_books \<Rightarrow> Returned (length sorted_books) sorted_books)))"

section \<open>Saving and loading again\<close>

text \<open>
  \<open>save(filename)\<close> without an error of the file system, followed by
  \<open>load(filename)\<close> into a new, empty collection. The result is \<^term>\<open>None\<close> when
  the file written is not well-formed, in which case \<open>load\<close> raises a DataFormatError
  with the text of the parser's error.
\<close>

definition BirthdayBook_save_load ::
  "int \<Rightarrow> person list \<Rightarrow> string \<Rightarrow> (nat \<times> nat, person list) outcome option" where
  "BirthdayBook_save_load current_year people filename =
     (case BirthdayBook_save people filename None of
        Returned tree ps \<Rightarrow>
          map_option (BirthdayBook_load current_year [] filename) (write_then_parse tree)
      | Raised e ps \<Rightarrow> None
      | RaisedInSort e ps \<Rightarrow> None)"

definition Library_save_load :: "book list \<Rightarrow> string \<Rightarrow> (nat, book list) outcome option" where
  "Library_save_load books filename =
     (case Library_save books filename None of
        Returned tree bs \<Rightarrow> map_option (Library_load [] filename) (write_then_parse tree)
      | Raised e bs \<Rightarrow> None
      | RaisedInSort e bs \<Rightarrow> None)"

text \<open>
  A text that is read back as it was written: no text at all, or a text that is not
  empty and has no carriage return and no control character that a file cannot hold.
\<close>

definition storable :: "pystr \<Rightarrow> bool" where
  "storable t =
     (case t of
        None \<Rightarrow> True
      | Some s \<Rightarrow> s \<noteq> [] \<and> list_all (\<lambda>c. xml_char c \<and> c \<noteq> CHR 0x0D) s)"

section \<open>Reachable states\<close>

text \<open>
  The lists a collection can hold after a sequence of calls of \<open>add\<close> and \<open>load\<close>
  that all returned, starting from the empty collection. The clock and the file may differ
  from call to call.
\<close>

inductive people_reachable :: "person list \<Rightarrow> bool" where
  people_empty: "people_reachable []"
| people_add:
    "people_reachable ps \<Longrightarrow> BirthdayBook_add cy ps ln fn ph d m y = Returned () ps'
       \<Longrightarrow> people_reachable ps'"
| people_load:
    "people_reachable ps \<Longrightarrow> BirthdayBook_load cy ps filename file = Returned r ps'
       \<Longrightarrow> people_reachable ps'"

inductive cars_reachable :: "car list \<Rightarrow> bool" where
  cars_empty: "cars_reachable []"
| cars_add:
    "cars_reachable cs \<Longrightarrow> CarRegistry_add cs b mo lp ms cu = Returned () cs'
       \<Longrightarrow> cars_reachable cs'"
| cars_load:
    "cars_reachable cs \<Longrightarrow> CarRegistry_load cs filename file = Returned r cs'
       \<Longrightarrow> cars_reachable cs'"

inductive books_reachable :: "book list \<Rightarrow> bool" where
  books_empty: "books_reachable []"
| books_add:
    "books_reachable bs \<Longrightarrow> Library_add bs t a y g p = Returned () bs'
       \<Longrightarrow> books_reachable bs'"
| books_load:
    "books_reachable bs \<Longrightarrow> Library_load bs filename file = Returned r bs'
       \<Longrightarrow> books_reachable bs'"

text \<open>The key of a book under a comparison of titles that ignores case.\<close>

definition title_lower :: "book \<Rightarrow> pystr" where
  "title_lower b = map_option py_lower (title b)"

text \<open>
  The lists a method can leave behind, and the lists a registry of cars can hold after
  any sequence of calls of \<open>add\<close> and \<open>load\<close>, whether they returned or raised.
\<close>

fun left_behind :: "('r, 'a list) outcome \<Rightarrow> 'a list set" where
  "left_behind (Returned r xs) = {xs}"
| "left_behind (Raised e xs) = {xs}"
| "left_behind (RaisedInSort e xs) = {ys. mset ys = mset xs}"

inductive registry_state :: "car list \<Rightarrow> bool" where
  registry_empty: "registry_state []"
| registry_add:
    "registry_state cs \<Longrightarrow> cs' \<in> left_behind (CarRegistry_add cs b mo lp ms cu)
       \<Longrightarrow> registry_state cs'"
| registry_load:
    "registry_state cs \<Longrightarrow> cs' \<in> left_behind (CarRegistry_load cs filename file)
       \<Longrightarrow> registry_state cs'"

section \<open>Properties of record validation\<close>

lemma Person_ok_iff:
  "(\<exists>p. Person cy ln fn ph d m y = Inr p) \<longleftrightarrow>
     1900 \<le> y \<and> y \<le> cy \<and> 1 \<le> m \<and> m \<le> 12 \<and> 1 \<le> d \<and> d \<le> get_days_in_month m y"
  by (auto simp: Person_def)

lemma Person_error_class:
  "Person cy ln fn ph d m y = Inl e \<Longrightarrow>
     class_of e = CInvalidMonthError \<or> class_of e = CInvalidDateError"
  by (auto simp: Person_def split: if_splits)

lemma february_days:
  "get_days_in_month 2 y = (if (4 dvd y \<and> \<not> 100 dvd y) \<or> 400 dvd y then 29 else 28)"
  by (simp add: get_days_in_month_def dvd_eq_mod_eq_0)

lemma get_days_in_month_gregorian:
  assumes "1 \<le> m" and "m \<le> 12"
  shows "get_days_in_month m y = gregorian_days_in_month m y"
proof -
  from assms have "m \<in> {1, 2, 3, 4, 5, 6, 7, 8, 9, 10, 11, 12}"
    by (simp; arith)
  then show ?thesis
    by (auto simp: get_days_in_month_def gregorian_days_in_month_def gregorian_leap_year_def
        dvd_eq_mod_eq_0)
qed

lemma Person_ok_iff_gregorian:
  "(\<exists>p. Person cy ln fn ph d m y = Inr p) \<longleftrightarrow>
     1900 \<le> y \<and> y \<le> cy \<and> 1 \<le> m \<and> m \<le> 12 \<and> 1 \<le> d \<and> d \<le> gregorian_days_in_month m y"
  using Person_ok_iff [of cy ln fn ph d m y] get_days_in_month_gregorian [of m y]
  by auto

text \<open>
  Claim C5. The construction of a Person succeeds exactly when the year is in
  1900..current\_year, the month in 1..12 and the day in 1..days\_in\_month, where the days
  of a month are those of the Gregorian calendar, stated apart from the code: 31 for the
  months 1, 3, 5, 7, 8, 10 and 12, 30 for the months 4, 6, 9 and 11, and for February 29 in
  the years divisible by 4 and not by 100, or divisible by 400, and 28 otherwise. The
  method \<open>_get_days_in_month\<close> computes these numbers for every month in 1..12. With the
  clock at 2000 or later, 29.02.2000 is accepted; 29.02.2001 is refused with a date error
  whatever the clock says; every refusal is a month error or a date error.
\<close>

theorem Person_validation:
  "((\<exists>p. Person cy ln fn ph d m y = Inr p) \<longleftrightarrow>
      1900 \<le> y \<and> y \<le> cy \<and> 1 \<le> m \<and> m \<le> 12 \<and> 1 \<le> d \<and> d \<le> gregorian_days_in_month m y)
   \<and> ((\<exists>p. Person cy ln fn ph d m y = Inr p) \<longleftrightarrow>
      1900 \<le> y \<and> y \<le> cy \<and> 1 \<le> m \<and> m \<le> 12 \<and> 1 \<le> d \<and> d \<le> get_days_in_month m y)
   \<and> (1 \<le> m \<and> m \<le> 12 \<longrightarrow> get_days_in_month m y = gregorian_days_in_month m y)
   \<and> (m \<in> {1, 3, 5, 7, 8, 10, 12} \<longrightarrow> get_days_in_month m y = 31)
   \<and> (m \<in> {4, 6, 9, 11} \<longrightarrow> get_days_in_month m y = 30)
   \<and> get_days_in_month 2 y = (if (4 dvd y \<and> \<not> 100 dvd y) \<or> 400 dvd y then 29 else 28)
   \<and> (2000 \<le> cy \<longrightarrow>
        Person cy ln fn ph 29 2 2000 =
          Inr \<lparr>last_name = ln, first_name = fn, phone = ph, day = 29, month = 2, year = 2000\<rparr>)
   \<and> (\<exists>msg. Person cy ln fn ph 29 2 2001 = Inl (InvalidDateError 29 2 2001 msg))
   \<and> (\<forall>e. Person cy ln fn ph d m y = Inl e \<longrightarrow>
          class_of e = CInvalidMonthError \<or> class_of e = CInvalidDateError)"
proof -
  have long: "m \<in> {1, 3, 5, 7, 8, 10, 12} \<longrightarrow> get_days_in_month m y = 31"
    by (auto simp: get_days_in_month_def)
  have short: "m \<in> {4, 6, 9, 11} \<longrightarrow> get_days_in_month m y = 30"
    by (auto simp: get_days_in_month_def)
  have leap: "2000 \<le> cy \<longrightarrow>
        Person cy ln fn ph 29 2 2000 =
          Inr \<lparr>last_name = ln, first_name = fn, phone = ph, day = 29, month = 2, year = 2000\<rparr>"
    by (simp add: Person_def get_days_in_month_def)
  have nonleap: "\<exists>msg. Person cy ln fn ph 29 2 2001 = Inl (InvalidDateError 29 2 2001 msg)"
    by (simp add: Person_def get_days_in_month_def)
  show ?thesis
    using Person_ok_iff_gregorian [of cy ln fn ph d m y] Person_ok_iff [of cy ln fn ph d m y]
      get_days_in_month_gregorian [of m y] long short february_days [of y] leap nonleap
      Person_error_class [of cy ln fn ph d m y]
    by blast
qed

theorem Person_validation_witness:
  "(2000::int) \<le> 2026
   \<and> Person 2026 (Some ''Ivanov'') (Some ''Ivan'') (Some ''123'') 29 2 2000 =
       Inr \<lparr>last_name = Some ''Ivanov'', first_name = Some ''Ivan'', phone = Some ''123'',
            day = 29, month = 2, year = 2000\<rparr>
   \<and> (1900::int) \<le> 1990 \<and> (1990::int) \<le> 2026 \<and> (1::int) \<le> 31
   \<and> (31::int) \<le> gregorian_days_in_month 1 1990
   \<and> (\<exists>p. Person 2026 (Some ''Ivanov'') (Some ''Ivan'') (Some ''123'') 31 1 1990 = Inr p)
   \<and> get_days_in_month 1 1990 = 31
   \<and> \<not> (31::int) \<le> gregorian_days_in_month 4 1990
   \<and> \<not> (\<exists>p. Person 2026 (Some ''Ivanov'') (Some ''Ivan'') (Some ''123'') 31 4 1990 = Inr p)
   \<and> get_days_in_month 4 1990 = 30
   \<and> Person 2026 (Some ''Ivanov'') (Some ''Ivan'') (Some ''123'') 15 13 1990 =
       Inl (InvalidMonthError 13)
   \<and> class_of (InvalidMonthError 13) = CInvalidMonthError"
proof -
  have e: "Person 2026 (Some ''Ivanov'') (Some ''Ivan'') (Some ''123'') 15 13 1990 =
       Inl (InvalidMonthError 13)"
    by (simp add: Person_def)
  have jan: "(31::int) \<le> gregorian_days_in_month 1 1990"
    by (simp add: gregorian_days_in_month_def)
  have apr: "\<not> (31::int) \<le> gregorian_days_in_month 4 1990"
    by (simp add: gregorian_days_in_month_def)
  show ?thesis
    using Person_validation
      [of 2026 "Some ''Ivanov''" "Some ''Ivan''" "Some ''123''" 15 13 1990]
      Person_validation
      [of 2026 "Some ''Ivanov''" "Some ''Ivan''" "Some ''123''" 31 1 1990]
      Person_validation
      [of 2026 "Some ''Ivanov''" "Some ''Ivan''" "Some ''123''" 31 4 1990]
      e jan apr
    by simp
qed

text \<open>
  Claim C6, as the code has it. Car checks that max\_speed is positive, then that
  current\_speed is not negative, then that current\_speed does not exceed max\_speed. The
  first two violations raise the same class, InvalidSpeedError, with the offending value
  and a message of their own; the third raises SpeedLimitExceededError. With a positive
  max\_speed, current\_speed above it always fails with SpeedLimitExceededError, and
  current\_speed equal to it succeeds.
\<close>

theorem Car_validation:
  "(ms \<le> 0 \<longrightarrow> Car b mo lp ms cs = Inl (InvalidSpeedError ms MaxSpeedNotPositive))
   \<and> (0 < ms \<and> cs < 0 \<longrightarrow> Car b mo lp ms cs = Inl (InvalidSpeedError cs CurrentSpeedNegative))
   \<and> (0 < ms \<and> ms < cs \<longrightarrow> Car b mo lp ms cs = Inl (SpeedLimitExceededError cs ms (b, mo, lp)))
   \<and> (0 < ms \<longrightarrow>
        Car b mo lp ms ms =
          Inr \<lparr>brand = b, model = mo, license_plate = lp, max_speed = ms, current_speed = ms\<rparr>)
   \<and> (\<forall>e. Car b mo lp ms cs = Inl e \<longrightarrow>
        class_of e = (if ms \<le> 0 \<or> cs < 0 then CInvalidSpeedError else CSpeedLimitExceededError))"
  by (auto simp: Car_def split: if_splits)

theorem Car_validation_witness:
  "(0::int) < 200 \<and> (200::int) < 250
   \<and> Car (Some ''Lada'') (Some ''Vesta'') (Some ''A123BC'') 200 250 =
       Inl (SpeedLimitExceededError 250 200 (Some ''Lada'', Some ''Vesta'', Some ''A123BC''))
   \<and> Car (Some ''Lada'') (Some ''Vesta'') (Some ''A123BC'') 200 200 =
       Inr \<lparr>brand = Some ''Lada'', model = Some ''Vesta'', license_plate = Some ''A123BC'',
            max_speed = 200, current_speed = 200\<rparr>"
  using Car_validation [of 200 "Some ''Lada''" "Some ''Vesta''" "Some ''A123BC''" 250]
  by simp

text \<open>
  Claim C6 as stated asks for a distinct kind of error for each violated constraint. A
  max\_speed of 0 and a current\_speed of -5 violate two different constraints and raise
  the same class.
\<close>

theorem Car_error_kind_counterexample:
  "Car (Some ''Lada'') (Some ''Vesta'') (Some ''A123BC'') 0 50 =
     Inl (InvalidSpeedError 0 MaxSpeedNotPositive)
   \<and> Car (Some ''Lada'') (Some ''Vesta'') (Some ''A123BC'') 200 (- 5) =
     Inl (InvalidSpeedError (- 5) CurrentSpeedNegative)
   \<and> class_of (InvalidSpeedError 0 MaxSpeedNotPositive) =
     class_of (InvalidSpeedError (- 5) CurrentSpeedNegative)"
  by (simp add: Car_def)

lemma Book_ok_iff:
  "(\<exists>bk. Book t a y g p = Inr bk) \<longleftrightarrow> 0 \<le> y \<and> y \<le> 2024 \<and> 0 < p"
  by (auto simp: Book_def book_current_year_def)

lemma Book_error_class:
  "Book t a y g p = Inl e \<Longrightarrow> class_of e = CInvalidInputError"
  by (auto simp: Book_def split: if_splits)

text \<open>
  Claim C9 at the failing input. The upper bound of the year is the literal 2024, which
  the source calls the current year: a book of 2025 with 100 pages is refused with an
  input-validation error, in every year.
\<close>

theorem Book_year_2025_refused:
  "Book (Some ''Title'') (Some ''Author'') 2025 (Some ''Genre'') 100 =
     Inl (InvalidInputError 2025 (YearOutOfBounds 2024))"
  by (simp add: Book_def book_current_year_def)

section \<open>Properties of the collections\<close>

subsection \<open>Sorting\<close>

lemma sort_people_Inr:
  assumes "sort_people ps = Inr s"
  shows "s = sort_key person_key ps" and "sorted (map person_key s)"
    and "\<forall>p\<in>set s. person_key p \<noteq> None"
  using assms by (auto simp: sort_people_def list_all_iff split: if_splits)

lemma sort_cars_Inr:
  assumes "sort_cars cs = Inr s"
  shows "s = sort_key car_key cs" and "sorted (map car_key s)"
  using assms by (auto simp: sort_cars_def split: if_splits)

lemma sort_books_Inr:
  assumes "sort_books bs = Inr s"
  shows "s = sort_key title bs" and "sorted (map title s)"
  using assms by (auto simp: sort_books_def split: if_splits)

lemma BirthdayBook_add_Returned:
  assumes "BirthdayBook_add cy ps ln fn ph d m y = Returned r ps'"
  shows "\<exists>p. Person cy (Some ln) (Some fn) (Some ph) d m y = Inr p \<and> sort_people (ps @ [p]) = Inr ps'"
  using assms by (auto simp: BirthdayBook_add_def split: if_splits sum.splits)

lemma BirthdayBook_load_Returned:
  assumes "BirthdayBook_load cy ps filename file = Returned r ps'"
  shows "\<exists>root loaded errors. file = Root root
           \<and> load_loop (read_person cy) person_caught (findall root ''person'') [] 0 = Inr (loaded, errors)
           \<and> sort_people loaded = Inr ps' \<and> r = (length ps', errors)"
  using assms by (auto simp: BirthdayBook_load_def split: parsed.splits sum.splits prod.splits)

lemma CarRegistry_add_Returned:
  assumes "CarRegistry_add cs b mo lp ms cu = Returned r cs'"
  shows "\<exists>c. Car (Some b) (Some mo) (Some lp) ms cu = Inr c \<and> sort_cars (cs @ [c]) = Inr cs'"
  using assms by (auto simp: CarRegistry_add_def split: sum.splits)

lemma CarRegistry_load_Returned:
  assumes "CarRegistry_load cs filename file = Returned r cs'"
  shows "\<exists>root loaded errors. file = Root root
           \<and> load_loop read_car car_caught (findall root ''car'') [] 0 = Inr (loaded, errors)
           \<and> sort_cars loaded = Inr cs' \<and> r = (length cs', errors)"
  using assms by (auto simp: CarRegistry_load_def split: parsed.splits sum.splits prod.splits)

lemma Library_add_Returned:
  assumes "Library_add bs t a y g p = Returned r bs'"
  shows "\<exists>b. Book (Some t) (Some a) y (Some g) p = Inr b \<and> sort_books (bs @ [b]) = Inr bs'"
  using assms by (auto simp: Library_add_def split: sum.splits)

lemma Library_load_Returned:
  assumes "Library_load bs filename file = Returned r bs'"
  shows "\<exists>root loaded errors. file = Root root
           \<and> load_loop read_book book_caught (findall root ''book'') [] 0 = Inr (loaded, errors)
           \<and> sort_books loaded = Inr bs' \<and> r = length bs'"
  using assms by (auto simp: Library_load_def split: parsed.splits sum.splits prod.splits)

lemma people_reachable_sorted:
  assumes "people_reachable ps"
  shows "sorted (map person_key ps) \<and> (\<forall>p\<in>set ps. person_key p \<noteq> None)"
  using assms
proof cases
  case people_empty
  then show ?thesis by simp
next
  case (people_add ps0 cy ln fn ph d m y)
  then show ?thesis
    using BirthdayBook_add_Returned sort_people_Inr(2,3) by blast
next
  case (people_load ps0 cy filename src r)
  then show ?thesis
    using BirthdayBook_load_Returned sort_people_Inr(2,3) by blast
qed

lemma cars_reachable_sorted:
  assumes "cars_reachable cs"
  shows "sorted (map car_key cs)"
  using assms
proof cases
  case cars_empty
  then show ?thesis by simp
next
  case (cars_add cs0 b mo lp ms cu)
  then show ?thesis
    using CarRegistry_add_Returned sort_cars_Inr(2) by blast
next
  case (cars_load cs0 filename src r)
  then show ?thesis
    using CarRegistry_load_Returned sort_cars_Inr(2) by blast
qed

lemma books_reachable_sorted:
  assumes "books_reachable bs"
  shows "sorted (map title bs)"
  using assms
proof cases
  case books_empty
  then show ?thesis by simp
next
  case (books_add bs0 t a y g p)
  then show ?thesis
    using Library_add_Returned sort_books_Inr(2) by blast
next
  case (books_load bs0 filename src r)
  then show ?thesis
    using Library_load_Returned sort_books_Inr(2) by blast
qed

text \<open>
  Claim C2, as the code has it. After any sequence of inserts and loads that all
  returned, the list of a BirthdayBook is sorted by (last name, first name), both in lower
  case; the list of a CarRegistry is sorted by (brand, model) and the list of a Library by
  title, both compared as the strings are, capitals before small letters.
\<close>

theorem collections_sorted:
  "(people_reachable ps \<longrightarrow> sorted (map person_key ps) \<and> (\<forall>p\<in>set ps. person_key p \<noteq> None))
   \<and> (cars_reachable cs \<longrightarrow> sorted (map car_key cs))
   \<and> (books_reachable bs \<longrightarrow> sorted (map title bs))"
  using people_reachable_sorted cars_reachable_sorted books_reachable_sorted by blast

theorem collections_sorted_witness:
  "people_reachable
     [\<lparr>last_name = Some ''ivanov'', first_name = Some ''Ivan'', phone = Some ''111'',
        day = 15, month = 5, year = 1990\<rparr>,
      \<lparr>last_name = Some ''Petrova'', first_name = Some ''Maria'', phone = Some ''222'',
        day = 3, month = 1, year = 1985\<rparr>]
   \<and> sorted (map person_key
     [\<lparr>last_name = Some ''ivanov'', first_name = Some ''Ivan'', phone = Some ''111'',
        day = 15, month = 5, year = 1990\<rparr>,
      \<lparr>last_name = Some ''Petrova'', first_name = Some ''Maria'', phone = Some ''222'',
        day = 3, month = 1, year = 1985\<rparr>])
   \<and> cars_reachable
     [\<lparr>brand = Some ''Lada'', model = Some ''Vesta'', license_plate = Some ''A123BC'',
        max_speed = 180, current_speed = 60\<rparr>]
   \<and> sorted (map car_key
     [\<lparr>brand = Some ''Lada'', model = Some ''Vesta'', license_plate = Some ''A123BC'',
        max_speed = 180, current_speed = 60\<rparr>])
   \<and> books_reachable
     [\<lparr>title = Some ''C'', author = Some ''y'', pub_year = 2001, genre = Some ''g'', pages = 20\<rparr>,
      \<lparr>title = Some ''b'', author = Some ''x'', pub_year = 2000, genre = Some ''g'', pages = 10\<rparr>]
   \<and> sorted (map title
     [\<lparr>title = Some ''C'', author = Some ''y'', pub_year = 2001, genre = Some ''g'', pages = 20\<rparr>,
      \<lparr>title = Some ''b'', author = Some ''x'', pub_year = 2000, genre = Some ''g'', pages = 10\<rparr>])"
proof -
  have p1: "BirthdayBook_add 2026 [] ''Petrova'' ''Maria'' ''222'' 3 1 1985 =
      Returned ()
        [\<lparr>last_name = Some ''Petrova'', first_name = Some ''Maria'', phone = Some ''222'',
           day = 3, month = 1, year = 1985\<rparr>]"
    by code_simp
  have p2: "BirthdayBook_add 2026
        [\<lparr>last_name = Some ''Petrova'', first_name = Some ''Maria'', phone = Some ''222'',
           day = 3, month = 1, year = 1985\<rparr>]
        ''ivanov'' ''Ivan'' ''111'' 15 5 1990 =
      Returned ()
        [\<lparr>last_name = Some ''ivanov'', first_name = Some ''Ivan'', phone = Some ''111'',
           day = 15, month = 5, year = 1990\<rparr>,
         \<lparr>last_name = Some ''Petrova'', first_name = Some ''Maria'', phone = Some ''222'',
           day = 3, month = 1, year = 1985\<rparr>]"
    by code_simp
  have c1: "CarRegistry_add [] ''Lada'' ''Vesta'' ''A123BC'' 180 60 =
      Returned ()
        [\<lparr>brand = Some ''Lada'', model = Some ''Vesta'', license_plate = Some ''A123BC'',
           max_speed = 180, current_speed = 60\<rparr>]"
    by code_simp
  have b1: "Library_add [] ''b'' ''x'' 2000 ''g'' 10 =
      Returned ()
        [\<lparr>title = Some ''b'', author = Some ''x'', pub_year = 2000, genre = Some ''g'', pages = 10\<rparr>]"
    by code_simp
  have b2: "Library_add
        [\<lparr>title = Some ''b'', author = Some ''x'', pub_year = 2000, genre = Some ''g'', pages = 10\<rparr>]
        ''C'' ''y'' 2001 ''g'' 20 =
      Returned ()
        [\<lparr>title = Some ''C'', author = Some ''y'', pub_year = 2001, genre = Some ''g'', pages = 20\<rparr>,
         \<lparr>title = Some ''b'', author = Some ''x'', pub_year = 2000, genre = Some ''g'', pages = 10\<rparr>]"
    by code_simp
  note rp = people_add [OF people_add [OF people_empty p1] p2]
  note rc = cars_add [OF cars_empty c1]
  note rb = books_add [OF books_add [OF books_empty b1] b2]
  from rp rc rb collections_sorted show ?thesis by blast
qed

text \<open>
  Claim C2 as stated has the titles compared without regard to case. A Library that
  inserts the title b and then the title C holds C before b: sorted as the strings are,
  not sorted when case is ignored.
\<close>

theorem titles_case_counterexample:
  "books_reachable
     [\<lparr>title = Some ''C'', author = Some ''y'', pub_year = 2001, genre = Some ''g'', pages = 20\<rparr>,
      \<lparr>title = Some ''b'', author = Some ''x'', pub_year = 2000, genre = Some ''g'', pages = 10\<rparr>]
   \<and> \<not> sorted (map title_lower
     [\<lparr>title = Some ''C'', author = Some ''y'', pub_year = 2001, genre = Some ''g'', pages = 20\<rparr>,
      \<lparr>title = Some ''b'', author = Some ''x'', pub_year = 2000, genre = Some ''g'', pages = 10\<rparr>])"
proof -
  have b1: "Library_add [] ''b'' ''x'' 2000 ''g'' 10 =
      Returned ()
        [\<lparr>title = Some ''b'', author = Some ''x'', pub_year = 2000, genre = Some ''g'', pages = 10\<rparr>]"
    by code_simp
  have b2: "Library_add
        [\<lparr>title = Some ''b'', author = Some ''x'', pub_year = 2000, genre = Some ''g'', pages = 10\<rparr>]
        ''C'' ''y'' 2001 ''g'' 20 =
      Returned ()
        [\<lparr>title = Some ''C'', author = Some ''y'', pub_year = 2001, genre = Some ''g'', pages = 20\<rparr>,
         \<lparr>title = Some ''b'', author = Some ''x'', pub_year = 2000, genre = Some ''g'', pages = 10\<rparr>]"
    by code_simp
  have unsorted: "\<not> sorted (map title_lower
     [\<lparr>title = Some ''C'', author = Some ''y'', pub_year = 2001, genre = Some ''g'', pages = 20\<rparr>,
      \<lparr>title = Some ''b'', author = Some ''x'', pub_year = 2000, genre = Some ''g'', pages = 10\<rparr>])"
    by code_simp
  from books_add [OF books_add [OF books_empty b1] b2] unsorted show ?thesis by blast
qed

subsection \<open>Insertion that fails\<close>

text \<open>
  Claim C4, as the code has it. When the construction of the record fails, \<open>add\<close>
  raises and leaves the list as it was. CarRegistry and Library raise the error of the
  construction. BirthdayBook checks the month before it constructs the Person: with a month
  outside 1..12 it raises the month error, also where the construction would have raised
  the date error of the year; otherwise it raises the error of the construction.
\<close>

theorem add_atomic:
  "(Person cy (Some ln) (Some fn) (Some ph) d m y = Inl e1 \<longrightarrow>
      BirthdayBook_add cy people ln fn ph d m y =
        Raised (if m < 1 \<or> m > 12 then InvalidMonthError m else e1) people)
   \<and> (Car (Some b) (Some mo) (Some lp) ms cu = Inl e2 \<longrightarrow>
      CarRegistry_add cars b mo lp ms cu = Raised e2 cars)
   \<and> (Book (Some t) (Some a) py (Some g) pg = Inl e3 \<longrightarrow>
      Library_add books t a py g pg = Raised e3 books)"
  by (simp add: BirthdayBook_add_def CarRegistry_add_def Library_add_def)

theorem add_atomic_witness:
  "Person 2026 (Some ''Ivanov'') (Some ''Ivan'') (Some ''123'') 31 2 2000 =
      Inl (InvalidDateError 31 2 2000 (DayOutOfRange 29 2))
   \<and> BirthdayBook_add 2026 [] ''Ivanov'' ''Ivan'' ''123'' 31 2 2000 =
      Raised (InvalidDateError 31 2 2000 (DayOutOfRange 29 2)) []
   \<and> Car (Some ''Lada'') (Some ''Vesta'') (Some ''A123BC'') 200 250 =
      Inl (SpeedLimitExceededError 250 200 (Some ''Lada'', Some ''Vesta'', Some ''A123BC''))
   \<and> CarRegistry_add [] ''Lada'' ''Vesta'' ''A123BC'' 200 250 =
      Raised (SpeedLimitExceededError 250 200 (Some ''Lada'', Some ''Vesta'', Some ''A123BC'')) []
   \<and> Book (Some ''Title'') (Some ''Author'') 3000 (Some ''Genre'') 100 =
      Inl (InvalidInputError 3000 (YearOutOfBounds 2024))
   \<and> Library_add [] ''Title'' ''Author'' 3000 ''Genre'' 100 =
      Raised (InvalidInputError 3000 (YearOutOfBounds 2024)) []"
proof -
  have p: "Person 2026 (Some ''Ivanov'') (Some ''Ivan'') (Some ''123'') 31 2 2000 =
      Inl (InvalidDateError 31 2 2000 (DayOutOfRange 29 2))"
    by (simp add: Person_def get_days_in_month_def)
  have c: "Car (Some ''Lada'') (Some ''Vesta'') (Some ''A123BC'') 200 250 =
      Inl (SpeedLimitExceededError 250 200 (Some ''Lada'', Some ''Vesta'', Some ''A123BC''))"
    by (simp add: Car_def)
  have b: "Book (Some ''Title'') (Some ''Author'') 3000 (Some ''Genre'') 100 =
      Inl (InvalidInputError 3000 (YearOutOfBounds 2024))"
    by (simp add: Book_def book_current_year_def)
  show ?thesis
    using p c b
      add_atomic [of 2026 "''Ivanov''" "''Ivan''" "''123''" 31 2 2000
        "InvalidDateError 31 2 2000 (DayOutOfRange 29 2)" "[]"
        "''Lada''" "''Vesta''" "''A123BC''" 200 250
        "SpeedLimitExceededError 250 200 (Some ''Lada'', Some ''Vesta'', Some ''A123BC'')" "[]"
        "''Title''" "''Author''" 3000 "''Genre''" 100
        "InvalidInputError 3000 (YearOutOfBounds 2024)" "[]"]
    by simp
qed

text \<open>
  Claim C4 as stated has the error of the construction reach the caller. For the day 1,
  the month 13 and the year 1800 the construction of the Person raises the date error of
  the year, and \<open>BirthdayBook.add\<close> raises the month error.
\<close>

theorem add_month_first_counterexample:
  "Person 2026 (Some ''Ivanov'') (Some ''Ivan'') (Some ''123'') 1 13 1800 =
      Inl (InvalidDateError 1 13 1800 (YearOutOfRange 2026))
   \<and> BirthdayBook_add 2026 [] ''Ivanov'' ''Ivan'' ''123'' 1 13 1800 =
      Raised (InvalidMonthError 13) []"
  by (simp add: Person_def BirthdayBook_add_def)

subsection \<open>Loading a file that is absent or ill-formed\<close>

text \<open>
  Claim C7. When the file is absent, or is not well-formed, \<open>load\<close> of each of the three
  collections raises one DataFormatError that carries the name of the file and the cause
  (for an ill-formed file the text of the parser's error), and leaves the list of the
  collection as it was.
\<close>

theorem load_structural_failure:
  "BirthdayBook_load cy people filename FileNotFound =
      Raised (DataFormatError filename FileMissing) people
   \<and> BirthdayBook_load cy people filename (ParseError e) =
      Raised (DataFormatError filename (ParseFailure e)) people
   \<and> CarRegistry_load cars filename FileNotFound =
      Raised (DataFormatError filename FileMissing) cars
   \<and> CarRegistry_load cars filename (ParseError e) =
      Raised (DataFormatError filename (ParseFailure e)) cars
   \<and> Library_load books filename FileNotFound =
      Raised (DataFormatError filename FileMissing) books
   \<and> Library_load books filename (ParseError e) =
      Raised (DataFormatError filename (ParseFailure e)) books"
  by (simp add: BirthdayBook_load_def CarRegistry_load_def Library_load_def)

subsection \<open>Selection\<close>

text \<open>
  Claim C8. For a month in 1..12, \<open>filter_by_month\<close> returns exactly the persons born
  in that month, in ascending order of the day, the persons of one day in the order they
  have in the collection, and leaves the list of the collection as it was. For a month
  outside 1..12 it raises the month error and returns nothing.
\<close>

theorem filter_by_month_correct:
  "(1 \<le> m \<and> m \<le> 12 \<longrightarrow>
      (\<exists>r. filter_by_month people m = Returned r people
         \<and> mset r = mset (filter (\<lambda>p. month p = m) people)
         \<and> sorted (map day r)
         \<and> (\<forall>d. filter (\<lambda>p. day p = d) r =
                filter (\<lambda>p. day p = d) (filter (\<lambda>p. month p = m) people))))
   \<and> (m < 1 \<or> 12 < m \<longrightarrow> filter_by_month people m = Raised (InvalidMonthError m) people)"
proof -
  let ?sel = "filter (\<lambda>p. month p = m) people"
  have a: "mset (sort_key day ?sel) = mset ?sel"
    by simp
  have b: "sorted (map day (sort_key day ?sel))"
    by (rule sorted_sort_key)
  have c: "\<forall>d. filter (\<lambda>p. day p = d) (sort_key day ?sel) = filter (\<lambda>p. day p = d) ?sel"
    by (simp add: sort_key_stable)
  have d: "1 \<le> m \<and> m \<le> 12 \<longrightarrow> filter_by_month people m = Returned (sort_key day ?sel) people"
    by (simp add: filter_by_month_def birthday_in_month_def)
  have e: "m < 1 \<or> 12 < m \<longrightarrow> filter_by_month people m = Raised (InvalidMonthError m) people"
    by (simp add: filter_by_month_def)
  from a b c d e show ?thesis by blast
qed

theorem filter_by_month_correct_witness:
  "(1::int) \<le> 5 \<and> (5::int) \<le> 12
   \<and> filter_by_month
       [\<lparr>last_name = Some ''Ivanov'', first_name = Some ''Ivan'', phone = Some ''111'',
          day = 15, month = 5, year = 1990\<rparr>,
        \<lparr>last_name = Some ''Kozlova'', first_name = Some ''Anna'', phone = Some ''444'',
          day = 7, month = 12, year = 1988\<rparr>,
        \<lparr>last_name = Some ''Mikhailov'', first_name = Some ''Dmitry'', phone = Some ''555'',
          day = 15, month = 5, year = 1992\<rparr>,
        \<lparr>last_name = Some ''Petrova'', first_name = Some ''Maria'', phone = Some ''222'',
          day = 3, month = 5, year = 1985\<rparr>] 5 =
     Returned
       [\<lparr>last_name = Some ''Petrova'', first_name = Some ''Maria'', phone = Some ''222'',
          day = 3, month = 5, year = 1985\<rparr>,
        \<lparr>last_name = Some ''Ivanov'', first_name = Some ''Ivan'', phone = Some ''111'',
          day = 15, month = 5, year = 1990\<rparr>,
        \<lparr>last_name = Some ''Mikhailov'', first_name = Some ''Dmitry'', phone = Some ''555'',
          day = 15, month = 5, year = 1992\<rparr>]
       [\<lparr>last_name = Some ''Ivanov'', first_name = Some ''Ivan'', phone = Some ''111'',
          day = 15, month = 5, year = 1990\<rparr>,
        \<lparr>last_name = Some ''Kozlova'', first_name = Some ''Anna'', phone = Some ''444'',
          day = 7, month = 12, year = 1988\<rparr>,
        \<lparr>last_name = Some ''Mikhailov'', first_name = Some ''Dmitry'', phone = Some ''555'',
          day = 15, month = 5, year = 1992\<rparr>,
        \<lparr>last_name = Some ''Petrova'', first_name = Some ''Maria'', phone = Some ''222'',
          day = 3, month = 5, year = 1985\<rparr>]
   \<and> sorted (map day
       [\<lparr>last_name = Some ''Petrova'', first_name = Some ''Maria'', phone = Some ''222'',
          day = 3, month = 5, year = 1985\<rparr>,
        \<lparr>last_name = Some ''Ivanov'', first_name = Some ''Ivan'', phone = Some ''111'',
          day = 15, month = 5, year = 1990\<rparr>,
        \<lparr>last_name = Some ''Mikhailov'', first_name = Some ''Dmitry'', phone = Some ''555'',
          day = 15, month = 5, year = 1992\<rparr>])"
proof -
  let ?people =
      "[\<lparr>last_name = Some ''Ivanov'', first_name = Some ''Ivan'', phone = Some ''111'',
          day = 15, month = 5, year = 1990\<rparr>,
        \<lparr>last_name = Some ''Kozlova'', first_name = Some ''Anna'', phone = Some ''444'',
          day = 7, month = 12, year = 1988\<rparr>,
        \<lparr>last_name = Some ''Mikhailov'', first_name = Some ''Dmitry'', phone = Some ''555'',
          day = 15, month = 5, year = 1992\<rparr>,
        \<lparr>last_name = Some ''Petrova'', first_name = Some ''Maria'', phone = Some ''222'',
          day = 3, month = 5, year = 1985\<rparr>]"
  let ?result =
      "[\<lparr>last_name = Some ''Petrova'', first_name = Some ''Maria'', phone = Some ''222'',
          day = 3, month = 5, year = 1985\<rparr>,
        \<lparr>last_name = Some ''Ivanov'', first_name = Some ''Ivan'', phone = Some ''111'',
          day = 15, month = 5, year = 1990\<rparr>,
        \<lparr>last_name = Some ''Mikhailov'', first_name = Some ''Dmitry'', phone = Some ''555'',
          day = 15, month = 5, year = 1992\<rparr>]"
  have ev: "filter_by_month ?people 5 = Returned ?result ?people"
    by code_simp
  have "\<exists>r. filter_by_month ?people 5 = Returned r ?people \<and> sorted (map day r)"
    using filter_by_month_correct [of 5 ?people] by auto
  with ev have "sorted (map day ?result)"
    by simp
  with ev show ?thesis by simp
qed

subsection \<open>The cars of a registry\<close>

lemma Car_Inr_within_limit:
  assumes "Car b mo lp ms cu = Inr c"
  shows "current_speed c \<le> max_speed c"
  using assms by (auto simp: Car_def split: if_splits)

lemma read_car_within_limit:
  assumes "read_car e = Inr c"
  shows "current_speed c \<le> max_speed c"
  using assms
  by (auto simp: read_car_def and_then_def split: sum.splits dest: Car_Inr_within_limit)

lemma load_loop_all:
  assumes "\<And>e r. rd e = Inr r \<Longrightarrow> P r"
    and "\<forall>r\<in>set loaded. P r"
    and "load_loop rd caught es loaded errors = Inr (loaded', errors')"
  shows "\<forall>r\<in>set loaded'. P r"
  using assms(2,3)
proof (induction es arbitrary: loaded errors)
  case Nil
  then show ?case by simp
next
  case (Cons e es)
  show ?case
  proof (cases "rd e")
    case (Inl x)
    with Cons.prems have "load_loop rd caught es loaded (errors + 1) = Inr (loaded', errors')"
      by (simp split: if_splits)
    with Cons.IH Cons.prems(1) show ?thesis by blast
  next
    case (Inr r)
    with Cons.prems have step: "load_loop rd caught es (loaded @ [r]) errors = Inr (loaded', errors')"
      by simp
    from Inr assms(1) have "P r" by blast
    with Cons.prems(1) have "\<forall>x\<in>set (loaded @ [r]). P x" by simp
    with Cons.IH step show ?thesis by blast
  qed
qed

lemma CarRegistry_add_left_behind:
  assumes "cs' \<in> left_behind (CarRegistry_add cs b mo lp ms cu)"
    and "\<forall>c\<in>set cs. current_speed c \<le> max_speed c"
  shows "\<forall>c\<in>set cs'. current_speed c \<le> max_speed c"
proof (cases "Car (Some b) (Some mo) (Some lp) ms cu")
  case (Inl e)
  with assms show ?thesis by (simp add: CarRegistry_add_def)
next
  case (Inr c)
  then have ok: "\<forall>x\<in>set (cs @ [c]). current_speed x \<le> max_speed x"
    using assms(2) Car_Inr_within_limit by auto
  show ?thesis
  proof (cases "sort_cars (cs @ [c])")
    case (Inl e)
    with Inr assms(1) have "mset cs' = mset (cs @ [c])"
      by (simp add: CarRegistry_add_def)
    then have "set cs' = set (cs @ [c])" by (rule mset_eq_setD)
    with ok show ?thesis by simp
  next
    case sorted_cars: (Inr s)
    with Inr assms(1) have "cs' = s"
      by (simp add: CarRegistry_add_def)
    with sorted_cars have "set cs' = set (cs @ [c])"
      using sort_cars_Inr(1) by fastforce
    with ok show ?thesis by simp
  qed
qed

lemma CarRegistry_load_left_behind:
  assumes "cs' \<in> left_behind (CarRegistry_load cs filename file)"
    and "\<forall>c\<in>set cs. current_speed c \<le> max_speed c"
  shows "\<forall>c\<in>set cs'. current_speed c \<le> max_speed c"
proof (cases "file")
  case FileNotFound
  with assms show ?thesis by (simp add: CarRegistry_load_def)
next
  case (ParseError e)
  with assms show ?thesis by (simp add: CarRegistry_load_def)
next
  case (ReadError e)
  with assms show ?thesis by (simp add: CarRegistry_load_def)
next
  case (Root root)
  show ?thesis
  proof (cases "load_loop read_car car_caught (findall root ''car'') [] 0")
    case (Inl x)
    with Root assms show ?thesis by (simp add: CarRegistry_load_def)
  next
    case (Inr res)
    obtain loaded errors where res: "res = (loaded, errors)" by (cases res)
    have ok: "\<forall>c\<in>set loaded. current_speed c \<le> max_speed c"
      using load_loop_all [where P = "\<lambda>c. current_speed c \<le> max_speed c" and rd = read_car
          and loaded = "[]"] Inr res read_car_within_limit
      by fastforce
    show ?thesis
    proof (cases "sort_cars loaded")
      case (Inl e)
      with Root Inr res assms(1) have "mset cs' = mset loaded"
        by (simp add: CarRegistry_load_def)
      then have "set cs' = set loaded" by (rule mset_eq_setD)
      with ok show ?thesis by simp
    next
      case sorted_cars: (Inr s)
      with Root Inr res assms(1) have "cs' = s"
        by (simp add: CarRegistry_load_def)
      with sorted_cars have "set cs' = set loaded"
        using sort_cars_Inr(1) by fastforce
      with ok show ?thesis by simp
    qed
  qed
qed

lemma registry_state_within_limit:
  assumes "registry_state cs"
  shows "\<forall>c\<in>set cs. current_speed c \<le> max_speed c"
  using assms
proof induction
  case registry_empty
  then show ?case by simp
next
  case (registry_add cs cs' b mo lp ms cu)
  then show ?case using CarRegistry_add_left_behind by blast
next
  case (registry_load cs cs' filename src)
  then show ?case using CarRegistry_load_left_behind by blast
qed

text \<open>
  Claim C10. In every list a CarRegistry can hold after calls of \<open>add\<close> and \<open>load\<close>,
  returned or raised, each car has current\_speed at most max\_speed; so
  \<open>select_speeding\<close> returns the empty list and no car has the status "exceeded".
\<close>

theorem registry_never_speeding:
  "registry_state cs \<longrightarrow>
     (\<forall>c\<in>set cs. current_speed c \<le> max_speed c)
     \<and> select_speeding cs = Returned [] cs
     \<and> (\<forall>c\<in>set cs. speed_status c \<noteq> EXCEEDED)"
proof
  assume "registry_state cs"
  then have ok: "\<forall>c\<in>set cs. current_speed c \<le> max_speed c"
    by (rule registry_state_within_limit)
  then have "filter is_speeding cs = []"
    by (auto simp: is_speeding_def filter_empty_conv)
  then have sel: "select_speeding cs = Returned [] cs"
    by (simp add: select_speeding_def)
  from ok have "\<forall>c\<in>set cs. speed_status c \<noteq> EXCEEDED"
    by (auto simp: speed_status_def)
  with ok sel show "(\<forall>c\<in>set cs. current_speed c \<le> max_speed c)
     \<and> select_speeding cs = Returned [] cs
     \<and> (\<forall>c\<in>set cs. speed_status c \<noteq> EXCEEDED)"
    by blast
qed

theorem registry_never_speeding_witness:
  "registry_state
     [\<lparr>brand = Some ''Lada'', model = Some ''Vesta'', license_plate = Some ''A123BC'',
        max_speed = 180, current_speed = 60\<rparr>]
   \<and> select_speeding
     [\<lparr>brand = Some ''Lada'', model = Some ''Vesta'', license_plate = Some ''A123BC'',
        max_speed = 180, current_speed = 60\<rparr>] =
     Returned []
       [\<lparr>brand = Some ''Lada'', model = Some ''Vesta'', license_plate = Some ''A123BC'',
          max_speed = 180, current_speed = 60\<rparr>]
   \<and> speed_status
     \<lparr>brand = Some ''Lada'', model = Some ''Vesta'', license_plate = Some ''A123BC'',
        max_speed = 180, current_speed = 60\<rparr> \<noteq> EXCEEDED"
proof -
  have c1: "CarRegistry_add [] ''Lada'' ''Vesta'' ''A123BC'' 180 60 =
      Returned ()
        [\<lparr>brand = Some ''Lada'', model = Some ''Vesta'', license_plate = Some ''A123BC'',
           max_speed = 180, current_speed = 60\<rparr>]"
    by code_simp
  have "registry_state
     [\<lparr>brand = Some ''Lada'', model = Some ''Vesta'', license_plate = Some ''A123BC'',
        max_speed = 180, current_speed = 60\<rparr>]"
    by (rule registry_add [OF registry_empty, of _ "''Lada''" "''Vesta''" "''A123BC''" 180 60])
      (simp add: c1)
  then show ?thesis
    using registry_never_speeding
      [of "[\<lparr>brand = Some ''Lada'', model = Some ''Vesta'', license_plate = Some ''A123BC'',
        max_speed = 180, current_speed = 60\<rparr>]"]
    by simp
qed

subsection \<open>Entries that cannot be loaded\<close>

text \<open>
  Claim C1 at the failing input. The file holds a well-formed book and a book with 0
  pages. \<open>Library.load\<close> does not skip the second entry: the InvalidInputError of its
  validation is not among the exceptions caught in the loop, the load raises it, and the
  collection keeps the list it had. (Nor does \<open>Library.load\<close> count skipped entries.)
\<close>

theorem Library_load_invalid_entry_aborts:
  "Library_load
     [\<lparr>title = Some ''Old'', author = Some ''Z'', pub_year = 1999, genre = Some ''G'', pages = 5\<rparr>]
     ''lib.xml''
     (Root (Element ''library'' None
        [Element ''book'' None
           [leaf ''title'' (Some ''A''), leaf ''author'' (Some ''X''), leaf ''year'' (Some ''2000''),
            leaf ''genre'' (Some ''G''), leaf ''pages'' (Some ''100'')],
         Element ''book'' None
           [leaf ''title'' (Some ''B''), leaf ''author'' (Some ''Y''), leaf ''year'' (Some ''2001''),
            leaf ''genre'' (Some ''G''), leaf ''pages'' (Some ''0'')]])) =
   Raised (InvalidInputError 0 PagesNotPositive)
     [\<lparr>title = Some ''Old'', author = Some ''Z'', pub_year = 1999, genre = Some ''G'', pages = 5\<rparr>]"
  by code_simp

text \<open>
  The other two collections do skip and count an entry that fails validation, and an entry
  with a missing field or a text that is not a number.
\<close>

lemma CarRegistry_load_skips_invalid_entries:
  "CarRegistry_load [] ''cars.xml''
     (Root (Element ''cars'' None
        [Element ''car'' None
           [leaf ''brand'' (Some ''Lada''), leaf ''model'' (Some ''Vesta''),
            leaf ''license_plate'' (Some ''A1''), leaf ''max_speed'' (Some ''200''),
            leaf ''current_speed'' (Some ''250'')],
         Element ''car'' None
           [leaf ''brand'' (Some ''Audi''), leaf ''model'' (Some ''A4''),
            leaf ''license_plate'' (Some ''B2''), leaf ''max_speed'' (Some ''fast''),
            leaf ''current_speed'' (Some ''90'')],
         Element ''car'' None
           [leaf ''brand'' (Some ''BMW''), leaf ''model'' (Some ''X5''),
            leaf ''max_speed'' (Some ''220''), leaf ''current_speed'' (Some ''90'')],
         Element ''car'' None
           [leaf ''brand'' (Some ''Kia''), leaf ''model'' (Some ''Rio''),
            leaf ''license_plate'' (Some ''C3''), leaf ''max_speed'' (Some ''180''),
            leaf ''current_speed'' (Some ''60'')]])) =
   Returned (1, 3)
     [\<lparr>brand = Some ''Kia'', model = Some ''Rio'', license_plate = Some ''C3'',
        max_speed = 180, current_speed = 60\<rparr>]"
  by code_simp

lemma BirthdayBook_load_skips_invalid_entries:
  "BirthdayBook_load 2026 [] ''b.xml''
     (Root (Element ''birthdays'' None
        [Element ''person'' None
           [leaf ''last_name'' (Some ''Ivanov''), leaf ''first_name'' (Some ''Ivan''),
            leaf ''phone'' (Some ''111''), leaf ''day'' (Some ''31''), leaf ''month'' (Some ''2''),
            leaf ''year'' (Some ''2000'')],
         Element ''person'' None
           [leaf ''last_name'' (Some ''Petrova''), leaf ''first_name'' (Some ''Maria''),
            leaf ''phone'' (Some ''222''), leaf ''day'' (Some ''3''), leaf ''month'' (Some ''1''),
            leaf ''year'' (Some ''1985'')]])) =
   Returned (1, 1)
     [\<lparr>last_name = Some ''Petrova'', first_name = Some ''Maria'', phone = Some ''222'',
        day = 3, month = 1, year = 1985\<rparr>]"
  by code_simp

text \<open>
  In all three collections an entry whose numeric tag is empty is not skipped either:
  \<open>int(None)\<close> raises a TypeError, which the loop does not catch.
\<close>

lemma BirthdayBook_load_empty_number_aborts:
  "BirthdayBook_load 2026 [] ''b.xml''
     (Root (Element ''birthdays'' None
        [Element ''person'' None
           [leaf ''last_name'' (Some ''Ivanov''), leaf ''first_name'' (Some ''Ivan''),
            leaf ''phone'' (Some ''111''), leaf ''day'' None, leaf ''month'' (Some ''2''),
            leaf ''year'' (Some ''2000'')]])) =
   Raised TypeError []"
  by code_simp

lemma load_loop_tolerant:
  assumes "\<forall>e\<in>set es. \<forall>x. rd e = Inl x \<longrightarrow> caught x"
  shows "load_loop rd caught es loaded errors =
           Inr (loaded @ map projr (filter (\<lambda>r. \<not> isl r) (map rd es)),
                errors + length (filter isl (map rd es)))"
  using assms
proof (induction es arbitrary: loaded errors)
  case Nil
  then show ?case by simp
next
  case (Cons e es)
  then show ?case by (cases "rd e") auto
qed

text \<open>
  BirthdayBook and CarRegistry on any well-formed file in which every exception of an
  entry is one the loop catches (no numeric tag is empty) and whose records can be sorted:
  the load returns, the records loaded are those of the entries that could be read, and
  the numbers reported are the number of these and the number of the other entries.
\<close>

lemma BirthdayBook_load_tolerant:
  assumes "\<forall>e\<in>set (findall root ''person''). \<forall>x. read_person cy e = Inl x \<longrightarrow> person_caught x"
    and "\<forall>p\<in>set (map projr (filter (\<lambda>r. \<not> isl r)
           (map (read_person cy) (findall root ''person'')))). person_key p \<noteq> None"
  shows "BirthdayBook_load cy people filename (Root root) =
     Returned
       (length (filter (\<lambda>r. \<not> isl r) (map (read_person cy) (findall root ''person''))),
        length (filter isl (map (read_person cy) (findall root ''person''))))
       (sort_key person_key (map projr (filter (\<lambda>r. \<not> isl r)
           (map (read_person cy) (findall root ''person'')))))"
  using assms
    load_loop_tolerant [of "findall root ''person''" "read_person cy" person_caught "[]" 0]
  by (simp add: BirthdayBook_load_def sort_people_def list_all_iff)

lemma CarRegistry_load_tolerant:
  assumes "\<forall>e\<in>set (findall root ''car''). \<forall>x. read_car e = Inl x \<longrightarrow> car_caught x"
    and "sorted_wrt tuple_comparable (map car_key (map projr (filter (\<lambda>r. \<not> isl r)
           (map read_car (findall root ''car'')))))"
  shows "CarRegistry_load cars filename (Root root) =
     Returned
       (length (filter (\<lambda>r. \<not> isl r) (map read_car (findall root ''car''))),
        length (filter isl (map read_car (findall root ''car''))))
       (sort_key car_key (map projr (filter (\<lambda>r. \<not> isl r)
           (map read_car (findall root ''car'')))))"
  using assms
    load_loop_tolerant [of "findall root ''car''" read_car car_caught "[]" 0]
  by (simp add: CarRegistry_load_def sort_cars_def)

subsection \<open>Saving and loading again\<close>

text \<open>
  Claim C3 at two failing inputs. A BirthdayBook whose only person has the empty text as
  phone (a record the validation accepts, inserted with \<open>add\<close>) is saved and loaded into
  an empty BirthdayBook: the person loaded has the phone \<open>None\<close>, since an element with
  empty text is written as an empty tag. A BirthdayBook that holds Petrova before Ivanov,
  as the fixture of the test of saving and loading assigns its list, is loaded as Ivanov
  before Petrova.
\<close>

theorem BirthdayBook_save_load_differs:
  "BirthdayBook_add 2026 [] ''Ivanov'' ''Ivan'' [] 1 1 2000 =
     Returned ()
       [\<lparr>last_name = Some ''Ivanov'', first_name = Some ''Ivan'', phone = Some [],
          day = 1, month = 1, year = 2000\<rparr>]
   \<and> BirthdayBook_save_load 2026
       [\<lparr>last_name = Some ''Ivanov'', first_name = Some ''Ivan'', phone = Some [],
          day = 1, month = 1, year = 2000\<rparr>] ''book.xml'' =
     Some (Returned (1, 0)
       [\<lparr>last_name = Some ''Ivanov'', first_name = Some ''Ivan'', phone = None,
          day = 1, month = 1, year = 2000\<rparr>])
   \<and> BirthdayBook_save_load 2026
       [\<lparr>last_name = Some ''Petrova'', first_name = Some ''Maria'', phone = Some ''222'',
          day = 3, month = 1, year = 1985\<rparr>,
        \<lparr>last_name = Some ''Ivanov'', first_name = Some ''Ivan'', phone = Some ''111'',
          day = 15, month = 5, year = 1990\<rparr>] ''book.xml'' =
     Some (Returned (2, 0)
       [\<lparr>last_name = Some ''Ivanov'', first_name = Some ''Ivan'', phone = Some ''111'',
          day = 15, month = 5, year = 1990\<rparr>,
        \<lparr>last_name = Some ''Petrova'', first_name = Some ''Maria'', phone = Some ''222'',
          day = 3, month = 1, year = 1985\<rparr>])"
  by code_simp

text \<open>
  With an empty title the book read back has the title \<open>None\<close>; a Library of two such
  books cannot be loaded at all, since the sort compares \<open>None\<close> with \<open>None\<close>.
\<close>

lemma Library_save_load_empty_titles:
  "Library_save_load
     [\<lparr>title = Some [], author = Some ''X'', pub_year = 2000, genre = Some ''G'', pages = 10\<rparr>,
      \<lparr>title = Some [], author = Some ''Y'', pub_year = 2001, genre = Some ''G'', pages = 20\<rparr>]
     ''lib.xml'' =
   Some (RaisedInSort TypeError
     [\<lparr>title = None, author = Some ''X'', pub_year = 2000, genre = Some ''G'', pages = 10\<rparr>,
      \<lparr>title = None, author = Some ''Y'', pub_year = 2001, genre = Some ''G'', pages = 20\<rparr>])"
  by code_simp

lemma digit_char_props:
  "is_digit (digit_char d)" "digit_val (digit_char d) = d mod 10" "\<not> is_space (digit_char d)"
  "digit_char d \<noteq> CHR ''_''" "digit_char d \<noteq> CHR ''-''" "digit_char d \<noteq> CHR ''+''"
  "xml_char (digit_char d)" "digit_char d \<noteq> CHR 0x0D"
proof -
  have k: "d mod 10 \<in> {0, 1, 2, 3, 4, 5, 6, 7, 8, 9}" by (simp; arith)
  show "is_digit (digit_char d)" using k by (auto simp: digit_char_def is_digit_def)
  show "digit_val (digit_char d) = d mod 10" using k by (auto simp: digit_char_def digit_val_def)
  show "\<not> is_space (digit_char d)" using k by (auto simp: digit_char_def is_space_def)
  show "digit_char d \<noteq> CHR ''_''" using k by (auto simp: digit_char_def)
  show "digit_char d \<noteq> CHR ''-''" using k by (auto simp: digit_char_def)
  show "digit_char d \<noteq> CHR ''+''" using k by (auto simp: digit_char_def)
  show "xml_char (digit_char d)" using k by (auto simp: digit_char_def xml_char_def)
  show "digit_char d \<noteq> CHR 0x0D" using k by (auto simp: digit_char_def)
qed

lemma digits_of_digits: "list_all is_digit (digits_of n) \<and> digits_of n \<noteq> []"
proof (induction n rule: digits_of.induct)
  case (1 n)
  show ?case
  proof (cases "n < 10")
    case True
    then show ?thesis by (simp add: digits_of.simps [of n] digit_char_props)
  next
    case False
    with 1 show ?thesis by (simp add: digits_of.simps [of n] digit_char_props)
  qed
qed

lemma parse_digits_foldl:
  "list_all is_digit ds \<Longrightarrow>
     parse_digits ds acc = Some (foldl (\<lambda>a c. 10 * a + digit_val c) acc ds)"
  by (induction ds acc rule: parse_digits.induct) auto

lemma foldl_digits_of: "foldl (\<lambda>a c. 10 * a + digit_val c) 0 (digits_of n) = n"
proof (induction n rule: digits_of.induct)
  case (1 n)
  show ?case
  proof (cases "n < 10")
    case True
    then show ?thesis by (simp add: digits_of.simps [of n] digit_char_props)
  next
    case False
    with 1 show ?thesis by (simp add: digits_of.simps [of n] digit_char_props)
  qed
qed

lemma parse_nat_digits_of: "parse_nat (digits_of n) = Some n"
proof -
  obtain c cs where ds: "digits_of n = c # cs"
    using digits_of_digits [of n] by (cases "digits_of n") auto
  with digits_of_digits [of n] have "is_digit c" by simp
  with ds show ?thesis
    using parse_digits_foldl [of "digits_of n" 0] digits_of_digits [of n] foldl_digits_of [of n]
    by (simp add: parse_nat_def)
qed

lemma strip_no_space:
  assumes "\<forall>c\<in>set s. \<not> is_space c"
  shows "strip s = s"
proof -
  have a: "dropWhile is_space s = s"
    using assms by (intro dropWhile_id) simp
  have b: "dropWhile is_space (rev s) = rev s"
    using assms by (intro dropWhile_id) simp
  show ?thesis by (simp add: strip_def a b)
qed

lemma py_str_chars:
  "\<forall>c\<in>set (py_str i). \<not> is_space c \<and> xml_char c \<and> c \<noteq> CHR 0x0D" "py_str i \<noteq> []"
proof -
  have d: "\<forall>c\<in>set (digits_of n). \<not> is_space c \<and> xml_char c \<and> c \<noteq> CHR 0x0D" for n
  proof (induction n rule: digits_of.induct)
    case (1 n)
    show ?case
    proof (cases "n < 10")
      case True
      then show ?thesis by (simp add: digits_of.simps [of n] digit_char_props)
    next
      case False
      with 1 show ?thesis by (simp add: digits_of.simps [of n] digit_char_props)
    qed
  qed
  have m: "\<not> is_space CHR ''-'' \<and> xml_char CHR ''-'' \<and> CHR ''-'' \<noteq> CHR 0x0D"
    by (simp add: is_space_def xml_char_def)
  show "\<forall>c\<in>set (py_str i). \<not> is_space c \<and> xml_char c \<and> c \<noteq> CHR 0x0D"
    using d m by (simp add: py_str_def)
  show "py_str i \<noteq> []"
    using digits_of_digits by (simp add: py_str_def)
qed

lemma py_int_py_str: "py_int (Some (py_str i)) = Inr i"
proof -
  have s: "strip (py_str i) = py_str i"
    using py_str_chars(1) by (simp add: strip_no_space)
  show ?thesis
  proof (cases "i < 0")
    case True
    then show ?thesis
      using s by (simp add: py_int_def parse_int_def py_str_def parse_nat_digits_of)
  next
    case False
    obtain c cs where ds: "digits_of (nat i) = c # cs"
      using digits_of_digits [of "nat i"] by (cases "digits_of (nat i)") auto
    with digits_of_digits [of "nat i"] have "is_digit c" by simp
    then have "c \<noteq> CHR ''-''" "c \<noteq> CHR ''+''"
      by (auto simp: is_digit_def)
    with False ds show ?thesis
      using s parse_nat_digits_of [of "nat i"]
      by (simp add: py_int_def parse_int_def py_str_def)
  qed
qed


lemma normalize_newlines_id:
  "\<forall>c\<in>set s. c \<noteq> CHR 0x0D \<Longrightarrow> normalize_newlines s = s"
  by (induction s rule: normalize_newlines.induct) auto

lemma storable_reread: "storable t \<Longrightarrow> reread_text t = t"
  by (cases t) (auto simp: storable_def reread_text_def list_all_iff normalize_newlines_id)

lemma storable_writable:
  "storable t \<Longrightarrow> (case t of None \<Rightarrow> True | Some s \<Rightarrow> list_all xml_char s)"
  by (cases t) (auto simp: storable_def list_all_iff)

lemma storable_py_str: "storable (Some (py_str i))"
  using py_str_chars [of i] by (simp add: storable_def list_all_iff)

lemma leaf_storable:
  "storable t \<Longrightarrow> reread (leaf tg t) = leaf tg t \<and> writable (leaf tg t)"
  using storable_writable [of t] by (simp add: leaf_def storable_reread)

lemma person_element_written:
  assumes "storable (last_name p)" "storable (first_name p)" "storable (phone p)"
  shows "reread (person_element p) = person_element p" and "writable (person_element p)"
  using assms leaf_storable storable_py_str
  by (simp_all add: person_element_def reread_text_def)

lemma read_person_person_element:
  "read_person cy (person_element p) =
     Person cy (last_name p) (first_name p) (phone p) (day p) (month p) (year p)"
  by (simp add: read_person_def person_element_def find_text_def find_elem_def leaf_def
      and_then_def py_int_py_str)

lemma load_loop_all_read:
  "\<forall>x\<in>set xs. rd (f x) = Inr x \<Longrightarrow>
     load_loop rd caught (map f xs) loaded errors = Inr (loaded @ xs, errors)"
  by (induction xs arbitrary: loaded) auto

lemma sort_people_sorted_id:
  assumes "sorted (map person_key ps)" and "\<forall>p\<in>set ps. person_key p \<noteq> None"
  shows "sort_people ps = Inr ps"
  using assms by (simp add: sort_people_def list_all_iff sort_key_id_if_sorted)

text \<open>
  What does hold: a BirthdayBook whose list is sorted, whose persons are valid and have
  names, and whose texts are read back as written, is loaded again as it was saved. The
  decimal text of an integer is read back as the integer.
\<close>

lemma BirthdayBook_round_trip:
  assumes valid: "\<forall>p\<in>set people.
      Person cy (last_name p) (first_name p) (phone p) (day p) (month p) (year p) = Inr p"
    and texts: "\<forall>p\<in>set people.
      storable (last_name p) \<and> storable (first_name p) \<and> storable (phone p)"
    and names: "\<forall>p\<in>set people. person_key p \<noteq> None"
    and sorted: "sorted (map person_key people)"
  shows "BirthdayBook_save_load cy people filename = Some (Returned (length people, 0) people)"
proof -
  let ?tree = "Element ''birthdays'' None (map person_element people)"
  have r: "map reread (map person_element people) = map person_element people"
    using texts person_element_written(1) by (simp add: map_idI)
  have w: "list_all writable (map person_element people)"
    using texts person_element_written(2) by (simp add: list_all_iff)
  have wp: "write_then_parse ?tree = Some (Root ?tree)"
    using r w by (simp add: write_then_parse_def reread_text_def)
  have tags: "findall ?tree ''person'' = map person_element people"
    by (simp add: findall_def person_element_def)
  have "\<forall>p\<in>set people. read_person cy (person_element p) = Inr p"
    using valid by (simp add: read_person_person_element)
  then have loop: "load_loop (read_person cy) person_caught (map person_element people) [] 0 =
      Inr (people, 0)"
    using load_loop_all_read [of people "read_person cy" person_element person_caught "[]" 0]
    by simp
  have srt: "sort_people people = Inr people"
    using sorted names by (rule sort_people_sorted_id)
  have "BirthdayBook_load cy [] filename (Root ?tree) = Returned (length people, 0) people"
    by (simp add: BirthdayBook_load_def tags loop srt)
  then show ?thesis
    by (simp add: BirthdayBook_save_load_def BirthdayBook_save_def wp)
qed

end
